theory Spec2Isabelle
  imports Complex_Main
begin

section \<open>Common types\<close>

text \<open>
  A Python \<open>str\<close> is a sequence of Unicode code points, and \<open>len\<close>, slicing, \<open>strip\<close>
  and the \<open>re\<close> module all count code points. A HOL \<open>char\<close> is a byte, so a Python string
  is modelled as the list of its code points. ASCII literals are written with
  \<open>str_of\<close>; other literals are spelled as code point lists.

  \<open>datetime.now()\<close> is read from the environment: every function that calls it takes
  the value it returns as the parameter \<open>now\<close> (microseconds on a linear time axis).
\<close>

type_synonym pystr = "nat list"
type_synonym datetime = int

definition str_of :: "string \<Rightarrow> pystr" where
  "str_of s = map of_char s"

section \<open>Python strings and the regular expressions the services use\<close>

text \<open>
  \<open>str.isspace\<close>, which is also the class \<open>\s\<close> of the \<open>re\<close> module on \<open>str\<close> patterns.
\<close>

definition isspace :: "nat \<Rightarrow> bool" where
  "isspace c = ((9 \<le> c \<and> c \<le> 13) \<or> (28 \<le> c \<and> c \<le> 32) \<or> c = 133 \<or> c = 160 \<or>
                c = 5760 \<or> (8192 \<le> c \<and> c \<le> 8202) \<or> c = 8232 \<or> c = 8233 \<or>
                c = 8239 \<or> c = 8287 \<or> c = 12288)"

definition strip :: "pystr \<Rightarrow> pystr" where
  "strip s = rev (dropWhile isspace (rev (dropWhile isspace s)))"

text \<open>\<open>s[:n]\<close> for an integer \<open>n\<close>: a negative \<open>n\<close> counts from the end.\<close>

definition slice_to :: "int \<Rightarrow> 'a list \<Rightarrow> 'a list" where
  "slice_to n xs = (if 0 \<le> n then take (nat n) xs else take (length xs - nat (- n)) xs)"

text \<open>\<open>s.find(c)\<close> and \<open>s.rfind(c)\<close> for a single character; \<open>None\<close> stands for \<open>-1\<close>.\<close>

fun find_char :: "nat \<Rightarrow> pystr \<Rightarrow> nat option" where
  "find_char c [] = None"
| "find_char c (x # xs) = (if x = c then Some 0 else map_option Suc (find_char c xs))"

definition rfind_char :: "nat \<Rightarrow> pystr \<Rightarrow> nat option" where
  "rfind_char c s = map_option (\<lambda>i. length s - 1 - i) (find_char c (rev s))"

text \<open>\<open>str(n)\<close> for a natural number.\<close>

function str_nat :: "nat \<Rightarrow> pystr" where
  "str_nat n = (if n < 10 then [48 + n] else str_nat (n div 10) @ [48 + n mod 10])"
  by pat_completeness auto
termination
  by (relation "measure id") auto

text \<open>\<open>sep.join(xs)\<close>\<close>

fun join :: "pystr \<Rightarrow> pystr list \<Rightarrow> pystr" where
  "join sep [] = []"
| "join sep [x] = x"
| "join sep (x # y # ys) = x @ sep @ join sep (y # ys)"

text \<open>
  Every pattern of the services is compiled with \<open>re.IGNORECASE\<close>. A literal
  character \<open>p\<close> of such a pattern matches the character \<open>c\<close> when the simple lower
  case of \<open>c\<close> is the lower case of \<open>p\<close>, and \<open>i\<close> and \<open>s\<close> also match U+0131 and
  U+017F. \<open>sre_lower\<close> is the simple lower case on the characters that lower to a
  pattern character of this program: the patterns hold ASCII and uncased characters
  only, and U+0130 and U+212A are the characters outside ASCII that lower into ASCII.
\<close>

definition sre_lower :: "nat \<Rightarrow> nat" where
  "sre_lower c = (if 65 \<le> c \<and> c \<le> 90 then c + 32
                  else if c = 304 then 105 else if c = 8490 then 107 else c)"

definition lit_ci :: "nat \<Rightarrow> nat \<Rightarrow> bool" where
  "lit_ci p c = (sre_lower c = sre_lower p \<or>
                 (sre_lower p = 105 \<and> c = 305) \<or> (sre_lower p = 115 \<and> c = 383))"

text \<open>
  The fragment of regular expressions the services use. A pattern is a list of
  items; an item is a run of atoms or, for \<open>(?:a|b|c)\<close>, a choice between runs of
  atoms. \<open>Char_in p\<close> is one character of the class \<open>p\<close>; \<open>Many0 p\<close> and \<open>Many1 p\<close>
  are the greedy \<open>p*\<close> and \<open>p+\<close>; \<open>Lazy1 p\<close> is \<open>p+?\<close>; \<open>Open_paren\<close> and \<open>Close_paren\<close>
  delimit group 1; \<open>Eol\<close> is \<open>$\<close> (the end of the text, or just before a final
  newline).

  The matcher is the backtracking matcher of \<open>re\<close>: it takes the text that is left and
  a continuation for the rest of the pattern, a greedy repetition tries the longest
  run first and gives characters back one by one, a lazy one tries the shortest first,
  a choice tries its alternatives in order, and \<open>re.search\<close> tries the start
  positions from left to right. A match remembers the text left where group 1 opened
  and where it closed.
\<close>

datatype atom =
    Char_in "nat \<Rightarrow> bool"
  | Many0 "nat \<Rightarrow> bool"
  | Many1 "nat \<Rightarrow> bool"
  | Lazy1 "nat \<Rightarrow> bool"
  | Open_paren
  | Close_paren
  | Eol

datatype item = Atoms "atom list" | Alt "atom list list"

record capture =
  group_open :: "pystr option"
  group_close :: "pystr option"

fun greedy :: "(nat \<Rightarrow> bool) \<Rightarrow> (pystr \<Rightarrow> 'r option) \<Rightarrow> pystr \<Rightarrow> 'r option" where
  "greedy p k [] = k []"
| "greedy p k (c # cs) =
     (if p c then (case greedy p k cs of Some r \<Rightarrow> Some r | None \<Rightarrow> k (c # cs))
      else k (c # cs))"

fun lazy1 :: "(nat \<Rightarrow> bool) \<Rightarrow> (pystr \<Rightarrow> 'r option) \<Rightarrow> pystr \<Rightarrow> 'r option" where
  "lazy1 p k [] = None"
| "lazy1 p k (c # cs) =
     (if p c then (case k cs of Some r \<Rightarrow> Some r | None \<Rightarrow> lazy1 p k cs) else None)"

fun match_atoms :: "atom list \<Rightarrow> (pystr \<Rightarrow> capture option) \<Rightarrow> pystr \<Rightarrow> capture option" where
  "match_atoms [] k s = k s"
| "match_atoms (Char_in p # r) k s =
     (case s of [] \<Rightarrow> None | c # cs \<Rightarrow> if p c then match_atoms r k cs else None)"
| "match_atoms (Many0 p # r) k s = greedy p (match_atoms r k) s"
| "match_atoms (Many1 p # r) k s =
     (case s of [] \<Rightarrow> None | c # cs \<Rightarrow> if p c then greedy p (match_atoms r k) cs else None)"
| "match_atoms (Lazy1 p # r) k s = lazy1 p (match_atoms r k) s"
| "match_atoms (Open_paren # r) k s =
     map_option (\<lambda>g. g\<lparr>group_open := Some s\<rparr>) (match_atoms r k s)"
| "match_atoms (Close_paren # r) k s =
     map_option (\<lambda>g. g\<lparr>group_close := Some s\<rparr>) (match_atoms r k s)"
| "match_atoms (Eol # r) k s = (if s = [] \<or> s = [10] then match_atoms r k s else None)"

fun first_some :: "('a \<Rightarrow> 'b option) \<Rightarrow> 'a list \<Rightarrow> 'b option" where
  "first_some f [] = None"
| "first_some f (x # xs) = (case f x of Some r \<Rightarrow> Some r | None \<Rightarrow> first_some f xs)"

fun match_items :: "item list \<Rightarrow> pystr \<Rightarrow> capture option" where
  "match_items [] s = Some \<lparr> group_open = None, group_close = None \<rparr>"
| "match_items (Atoms as # r) s = match_atoms as (match_items r) s"
| "match_items (Alt alts # r) s = first_some (\<lambda>as. match_atoms as (match_items r) s) alts"

text \<open>\<open>match.group(1)\<close>: the text between the two marks.\<close>

definition group1 :: "capture \<Rightarrow> pystr" where
  "group1 g = (case (group_open g, group_close g) of
                 (Some a, Some b) \<Rightarrow> take (length a - length b) a
               | _ \<Rightarrow> [])"

text \<open>
  \<open>re.search(pattern, text, re.IGNORECASE)\<close> followed by \<open>.group(1)\<close>:
  \<open>None\<close> when there is no match.
\<close>

fun re_search :: "item list \<Rightarrow> pystr \<Rightarrow> pystr option" where
  "re_search pat [] = map_option group1 (match_items pat [])"
| "re_search pat (c # cs) =
     (case match_items pat (c # cs) of
        Some g \<Rightarrow> Some (group1 g)
      | None \<Rightarrow> re_search pat cs)"

definition literal :: "pystr \<Rightarrow> atom list" where
  "literal s = map (\<lambda>p. Char_in (lit_ci p)) s"

text \<open>The pattern \<open>KEY:\s*([^;]+)\<close> (58 is the colon, 59 the semicolon).\<close>

definition kv_pattern :: "string \<Rightarrow> item list" where
  "kv_pattern key =
     [Atoms (literal (str_of key) @
             [Char_in (lit_ci 58), Many0 isspace, Open_paren, Many1 (\<lambda>c. c \<noteq> 59), Close_paren])]"

section \<open>What the services take from outside\<close>

text \<open>
  Values as \<open>json.loads\<close> returns them, which are also the values a weight record can
  hold. A float is the real number it denotes; infinities and NaN are not modelled.
\<close>

datatype pyval =
    PNone
  | PBool bool
  | PInt int
  | PFloat real
  | PStr pystr
  | PList "pyval list"
  | PDict "(pystr \<times> pyval) list"

text \<open>
  The library functions whose tables and algorithms are not part of the repository
  are parameters of the model; a function that can raise returns \<open>Inl\<close> of the
  exception's text:
  \<^item> \<open>str_format t kw\<close> is \<open>t.format(**kw)\<close>;
  \<^item> \<open>float_of_str s\<close> is \<open>float(s)\<close> on a string, \<open>float_type_error v\<close> the text of
    the \<open>TypeError\<close> that \<open>float(v)\<close> raises on a value that is no number or string;
  \<^item> \<open>json_loads s\<close> is \<open>json.loads(s)\<close>, \<open>Inl\<close> for \<open>JSONDecodeError\<close>;
  \<^item> \<open>isdecimal\<close> and \<open>isalnum\<close> are the Unicode tables behind \<open>\d\<close> and \<open>\w\<close>;
  \<^item> \<open>str_lower\<close> is \<open>str.lower\<close>;
  \<^item> \<open>strftime\<close> is \<open>timestamp.strftime('%m-%d %H:%M')\<close>, \<open>format_1f x\<close> is
    \<open>f"{x:.1f}"\<close>, and \<open>str_pyval v\<close> is \<open>str(v)\<close>.
\<close>

record pylib =
  str_format :: "pystr \<Rightarrow> (string \<times> pystr) list \<Rightarrow> pystr + pystr"
  float_of_str :: "pystr \<Rightarrow> pystr + real"
  float_type_error :: "pyval \<Rightarrow> pystr"
  json_loads :: "pystr \<Rightarrow> pystr + pyval"
  isdecimal :: "nat \<Rightarrow> bool"
  isalnum :: "nat \<Rightarrow> bool"
  str_lower :: "pystr \<Rightarrow> pystr"
  strftime :: "datetime \<Rightarrow> pystr"
  format_1f :: "real \<Rightarrow> pystr"
  str_pyval :: "pyval \<Rightarrow> pystr"

text \<open>\<open>float(v)\<close>; an integer is taken as the float of the same value.\<close>

definition py_float :: "pylib \<Rightarrow> pyval \<Rightarrow> pystr + real" where
  "py_float lib v =
     (case v of
        PFloat x \<Rightarrow> Inr x
      | PInt n \<Rightarrow> Inr (of_int n)
      | PBool b \<Rightarrow> Inr (if b then 1 else 0)
      | PStr s \<Rightarrow> float_of_str lib s
      | _ \<Rightarrow> Inl (float_type_error lib v))"

text \<open>
  The text-generation service: a call of \<open>LLMClient.generate_...\<close> with a prompt
  returns a success flag and a text. Each call of a service function takes the
  client as it answers during that call.
\<close>

type_synonym llm_client = "pystr \<Rightarrow> bool \<times> pystr"

section \<open>models/user\_message\_state.py\<close>

record UserMessageState =
  ums_user_id :: pystr
  last_message_id :: "pystr option"
  last_message_time :: "datetime option"
  impression_update_count :: int
  affection_update_count :: int
  total_messages :: int
  processed_messages :: int

text \<open>The row that \<open>get_or_create\<close> inserts: every field at its declared default.\<close>

definition new_UserMessageState :: "pystr \<Rightarrow> UserMessageState" where
  "new_UserMessageState u =
     \<lparr> ums_user_id = u, last_message_id = None, last_message_time = None,
       impression_update_count = 0, affection_update_count = 0,
       total_messages = 0, processed_messages = 0 \<rparr>"

definition increment_counters ::
  "UserMessageState \<Rightarrow> datetime \<Rightarrow> bool \<Rightarrow> bool \<Rightarrow> UserMessageState" where
  "increment_counters self now impression_updated affection_updated =
     (let s1 = self\<lparr>total_messages := total_messages self + 1\<rparr>;
          s2 = s1\<lparr>processed_messages := processed_messages s1 + 1\<rparr>;
          s3 = (if impression_updated
                then s2\<lparr>impression_update_count := impression_update_count s2 + 1\<rparr> else s2);
          s4 = (if affection_updated
                then s3\<lparr>affection_update_count := affection_update_count s3 + 1\<rparr> else s3)
      in s4\<lparr>last_message_time := Some now\<rparr>)"

section \<open>services/message\_service.py\<close>

subsection \<open>The user\_message\_state table\<close>

text \<open>
  The table has a unique index on \<open>user_id\<close>, so it is a map from user id to row.
  \<open>get_or_create\<close> returns the row of the user, inserting the default row first when
  there is none; the flag tells whether it was created.
\<close>

type_synonym state_table = "pystr \<rightharpoonup> UserMessageState"

definition ums_get_or_create :: "state_table \<Rightarrow> pystr \<Rightarrow> state_table \<times> UserMessageState \<times> bool" where
  "ums_get_or_create tbl u =
     (case tbl u of
        Some s \<Rightarrow> (tbl, s, False)
      | None \<Rightarrow> (tbl(u \<mapsto> new_UserMessageState u), new_UserMessageState u, True))"

definition update_message_state ::
  "state_table \<Rightarrow> datetime \<Rightarrow> pystr \<Rightarrow> pystr \<Rightarrow> bool \<Rightarrow> bool \<Rightarrow> state_table" where
  "update_message_state tbl now user_id message_id impression_updated affection_updated =
     (case ums_get_or_create tbl user_id of (tbl1, state, created) \<Rightarrow>
        let s1 = state\<lparr>last_message_id := Some message_id\<rparr>;
            s2 = s1\<lparr>last_message_time := Some now\<rparr>;
            s3 = s2\<lparr>total_messages := total_messages s2 + 1\<rparr>;
            s4 = s3\<lparr>processed_messages := processed_messages s3 + 1\<rparr>;
            s5 = (if impression_updated
                  then s4\<lparr>impression_update_count := impression_update_count s4 + 1\<rparr> else s4);
            s6 = (if affection_updated
                  then s5\<lparr>affection_update_count := affection_update_count s5 + 1\<rparr> else s5)
        in tbl1(user_id \<mapsto> s6))"

text \<open>
  One call of \<open>update_message_state\<close>, as the handler issues it:
  (now, user id, message id, impression updated, affection updated).
\<close>

type_synonym state_call = "datetime \<times> pystr \<times> pystr \<times> bool \<times> bool"

fun run_state_calls :: "state_table \<Rightarrow> state_call list \<Rightarrow> state_table" where
  "run_state_calls tbl [] = tbl"
| "run_state_calls tbl ((now, u, m, iu, au) # cs) =
     run_state_calls (update_message_state tbl now u m iu au) cs"

subsection \<open>The impression\_message\_records table\<close>

record ImpressionMessageRecord =
  imr_user_id :: pystr
  imr_message_id :: pystr
  impression_id :: "pystr option"
  processed_at :: datetime

type_synonym record_table = "ImpressionMessageRecord list"

datatype db_error = IntegrityError

text \<open>\<open>select().where(user_id == u & message_id == m).first()\<close>\<close>

definition imr_select_first :: "record_table \<Rightarrow> pystr \<Rightarrow> pystr \<Rightarrow> ImpressionMessageRecord option" where
  "imr_select_first tbl u m = find (\<lambda>r. imr_user_id r = u \<and> imr_message_id r = m) tbl"

text \<open>
  \<open>create\<close> inserts a row; the unique index on (user\_id, message\_id) makes the insert
  raise when the pair is already there.
\<close>

definition imr_create :: "record_table \<Rightarrow> ImpressionMessageRecord \<Rightarrow> db_error + record_table" where
  "imr_create tbl r =
     (if \<exists>x \<in> set tbl. imr_user_id x = imr_user_id r \<and> imr_message_id x = imr_message_id r
      then Inl IntegrityError else Inr (tbl @ [r]))"

definition record_processed_message ::
  "record_table \<Rightarrow> datetime \<Rightarrow> pystr \<Rightarrow> pystr \<Rightarrow> pystr option \<Rightarrow> record_table \<times> bool" where
  "record_processed_message tbl now user_id message_id impression_id' =
     (case imr_select_first tbl user_id message_id of
        Some existing \<Rightarrow> (tbl, False)
      | None \<Rightarrow>
          (case imr_create tbl \<lparr> imr_user_id = user_id, imr_message_id = message_id,
                                impression_id = impression_id', processed_at = now \<rparr> of
             Inr tbl' \<Rightarrow> (tbl', True)
           | Inl e \<Rightarrow> (tbl, False)))"

definition is_message_processed :: "record_table \<Rightarrow> pystr \<Rightarrow> pystr \<Rightarrow> bool" where
  "is_message_processed tbl user_id message_id =
     (imr_select_first tbl user_id message_id \<noteq> None)"

section \<open>models/user\_impression.py\<close>

record UserImpression =
  ui_user_id :: pystr
  personality_traits :: pystr
  interests_hobbies :: pystr
  communication_style :: pystr
  emotional_tendencies :: pystr
  behavioral_patterns :: pystr
  values_attitudes :: pystr
  relationship_preferences :: pystr
  growth_development :: pystr
  affection_score :: real
  affection_level :: pystr
  message_count :: int
  last_interaction :: datetime
  created_at :: datetime
  updated_at :: datetime

definition update_timestamps :: "UserImpression \<Rightarrow> datetime \<Rightarrow> UserImpression" where
  "update_timestamps self now = self\<lparr>updated_at := now\<rparr>"

section \<open>services/text\_impression\_service.py\<close>

text \<open>
  The service holds the prompt configuration; \<open>impression_template\<close> is
  \<open>prompts_config.get("impression_template", "")\<close>. The user\_impressions table has a
  unique index on \<open>user_id\<close>.
\<close>

record TextImpressionService =
  impression_template :: pystr

type_synonym impression_table = "pystr \<rightharpoonup> UserImpression"

definition default_impression_prompt_head :: pystr where
  "default_impression_prompt_head =
     [20998, 26512, 29992, 25143, 28040, 24687, 25353, 56, 20010, 32500, 24230, 29983, 25104, 21360,
      35937, 65292, 27599, 39033, 49, 48, 23383, 20869, 65292, 20449, 24687, 19981, 36275,
      29992, 24453, 35266, 23519, 12290, 21482, 36820, 22238, 38190, 20540, 23545, 26684, 24335,
      65306, 112, 101, 114, 115, 111, 110, 97, 108, 105, 116, 121, 95, 116, 114, 97, 105, 116,
      115, 58, 24615, 26684, 29305, 24449, 59, 105, 110, 116, 101, 114, 101, 115, 116, 115, 95,
      104, 111, 98, 98, 105, 101, 115, 58, 20852, 36259, 29233, 22909, 59, 99, 111, 109, 109,
      117, 110, 105, 99, 97, 116, 105, 111, 110, 95, 115, 116, 121, 108, 101, 58, 20132, 27969,
      39118, 26684, 59, 101, 109, 111, 116, 105, 111, 110, 97, 108, 95, 116, 101, 110, 100, 101,
      110, 99, 105, 101, 115, 58, 24773, 24863, 20542, 21521, 59, 98, 101, 104, 97, 118, 105,
      111, 114, 97, 108, 95, 112, 97, 116, 116, 101, 114, 110, 115, 58, 34892, 20026, 27169,
      24335, 59, 118, 97, 108, 117, 101, 115, 95, 97, 116, 116, 105, 116, 117, 100, 101, 115,
      58, 20215, 20540, 35266, 24577, 24230, 59, 114, 101, 108, 97, 116, 105, 111, 110, 115,
      104, 105, 112, 95, 112, 114, 101, 102, 101, 114, 101, 110, 99, 101, 115, 58, 20851, 31995,
      20559, 22909, 59, 103, 114, 111, 119, 116, 104, 95, 100, 101, 118, 101, 108, 111, 112,
      109, 101, 110, 116, 58, 25104, 38271, 21457, 23637, 12290, 21382, 21490, 58, 32]"

text \<open>\<open>;\<close>, U+6D88, U+606F, \<open>:\<close>, space: the text between the two placeholders.\<close>

definition default_impression_prompt_mid :: pystr where
  "default_impression_prompt_mid = [59, 28040, 24687, 58, 32]"

definition build_prompt :: "pylib \<Rightarrow> TextImpressionService \<Rightarrow> pystr \<Rightarrow> pystr \<Rightarrow> pystr + pystr" where
  "build_prompt lib self history_context message =
     (let template = strip (impression_template self) in
      if template \<noteq> [] then
        str_format lib template
          [(''history_context'', take 500 history_context),
           (''message'', take 200 message),
           (''context'', [])]
      else
        let limited_history =
              (if length history_context > 300 then take 300 history_context else history_context);
            limited_message = (if length message > 200 then take 200 message else message)
        in Inr (default_impression_prompt_head @ limited_history @
                default_impression_prompt_mid @ limited_message))"

text \<open>The sentinel: U+5F85 U+89C2 U+5BDF.\<close>

definition sentinel :: pystr where
  "sentinel = [24453, 35266, 23519]"

text \<open>The keys of \<open>patterns\<close>, in the order of the dictionary.\<close>

definition dimension_keys :: "string list" where
  "dimension_keys =
     [''personality_traits'', ''interests_hobbies'', ''communication_style'',
      ''emotional_tendencies'', ''behavioral_patterns'', ''values_attitudes'',
      ''relationship_preferences'', ''growth_development'']"

text \<open>
  The loop over \<open>patterns.items()\<close>. The result dictionary is the association list
  of its entries in insertion order; the keys of the loop are distinct.
\<close>

fun extract_dimensions :: "string list \<Rightarrow> pystr \<Rightarrow> (string \<times> pystr) list" where
  "extract_dimensions [] content = []"
| "extract_dimensions (key # keys) content =
     (case re_search (kv_pattern key) content of
        Some g \<Rightarrow>
          (let v = strip g in
           if v \<noteq> [] \<and> v \<noteq> sentinel then (key, v) # extract_dimensions keys content
           else extract_dimensions keys content)
      | None \<Rightarrow> extract_dimensions keys content)"

definition parse_impression_response :: "pystr \<Rightarrow> (string \<times> pystr) list" where
  "parse_impression_response content0 =
     (let content = strip content0;
          result = extract_dimensions dimension_keys content
      in if result \<noteq> [] then result
         else (case re_search (kv_pattern ''IMPRESSION'') content of
                 Some g \<Rightarrow> [(''interests_hobbies'', strip g)]
               | None \<Rightarrow> []))"

text \<open>\<open>d.get(key, default)\<close> on an association list.\<close>

definition dict_get :: "('k \<times> 'v) list \<Rightarrow> 'k \<Rightarrow> 'v \<Rightarrow> 'v" where
  "dict_get d key dflt = (case map_of d key of Some v \<Rightarrow> v | None \<Rightarrow> dflt)"

text \<open>
  \<open>UserImpression.get_or_create(user_id=u, defaults={...})\<close>: the text fields of a new
  row are empty, the level is U+4E00 U+822C, and the three times are the time of
  creation.
\<close>

definition new_UserImpression :: "pystr \<Rightarrow> datetime \<Rightarrow> UserImpression" where
  "new_UserImpression u now =
     \<lparr> ui_user_id = u, personality_traits = [], interests_hobbies = [],
       communication_style = [], emotional_tendencies = [], behavioral_patterns = [],
       values_attitudes = [], relationship_preferences = [], growth_development = [],
       affection_score = 50, affection_level = [19968, 33324], message_count = 0,
       last_interaction = now, created_at = now, updated_at = now \<rparr>"

definition ui_get_or_create ::
  "impression_table \<Rightarrow> pystr \<Rightarrow> datetime \<Rightarrow> impression_table \<times> UserImpression \<times> bool" where
  "ui_get_or_create tbl u now =
     (case tbl u of
        Some r \<Rightarrow> (tbl, r, False)
      | None \<Rightarrow> (tbl(u \<mapsto> new_UserImpression u now), new_UserImpression u now, True))"

definition save_impression ::
  "impression_table \<Rightarrow> datetime \<Rightarrow> pystr \<Rightarrow> (string \<times> pystr) list \<Rightarrow> impression_table" where
  "save_impression tbl now user_id impression_data =
     (case ui_get_or_create tbl user_id now of (tbl1, impression, created) \<Rightarrow>
        let i1 = impression\<lparr>personality_traits := dict_get impression_data ''personality_traits'' []\<rparr>;
            i2 = i1\<lparr>interests_hobbies := dict_get impression_data ''interests_hobbies'' []\<rparr>;
            i3 = i2\<lparr>communication_style := dict_get impression_data ''communication_style'' []\<rparr>;
            i4 = i3\<lparr>emotional_tendencies := dict_get impression_data ''emotional_tendencies'' []\<rparr>;
            i5 = i4\<lparr>behavioral_patterns := dict_get impression_data ''behavioral_patterns'' []\<rparr>;
            i6 = i5\<lparr>values_attitudes := dict_get impression_data ''values_attitudes'' []\<rparr>;
            i7 = i6\<lparr>relationship_preferences :=
                      dict_get impression_data ''relationship_preferences'' []\<rparr>;
            i8 = i7\<lparr>growth_development := dict_get impression_data ''growth_development'' []\<rparr>;
            i9 = (if created then i8\<lparr>message_count := 1\<rparr>
                  else i8\<lparr>message_count := message_count i8 + 1\<rparr>);
            i10 = i9\<lparr>last_interaction := now\<rparr>;
            i11 = update_timestamps i10 now
        in tbl1(user_id \<mapsto> i11))"

text \<open>
  The texts of the failure results: \<open>LLM\<close> U+8C03 U+7528 U+5931 U+8D25 \<open>:\<close>,
  U+89E3 U+6790 U+5931 U+8D25 \<open>:\<close>, U+6784 U+5EFA U+5370 U+8C61 U+5931 U+8D25 \<open>:\<close>, and the
  default summary U+5370 U+8C61 U+6784 U+5EFA U+6210 U+529F.
\<close>

definition llm_failed_text :: pystr where
  "llm_failed_text = [76, 76, 77, 35843, 29992, 22833, 36133, 58, 32]"

definition parse_failed_text :: pystr where
  "parse_failed_text = [35299, 26512, 22833, 36133, 58, 32]"

definition build_failed_text :: pystr where
  "build_failed_text = [26500, 24314, 21360, 35937, 22833, 36133, 58, 32]"

definition impression_built_text :: pystr where
  "impression_built_text = [21360, 35937, 26500, 24314, 25104, 21151]"

definition build_impression ::
  "pylib \<Rightarrow> llm_client \<Rightarrow> datetime \<Rightarrow> TextImpressionService \<Rightarrow> impression_table \<Rightarrow>
   pystr \<Rightarrow> pystr \<Rightarrow> pystr \<Rightarrow> impression_table \<times> bool \<times> pystr" where
  "build_impression lib generate_impression_analysis now self tbl user_id message history_context =
     (case build_prompt lib self history_context message of
        Inl e \<Rightarrow> (tbl, False, build_failed_text @ e)
      | Inr prompt \<Rightarrow>
          (case generate_impression_analysis prompt of (success, content) \<Rightarrow>
             if \<not> success then (tbl, False, llm_failed_text @ content)
             else
               let impression_data = parse_impression_response content in
               if impression_data = [] then (tbl, False, parse_failed_text @ content)
               else (save_impression tbl now user_id impression_data,
                     True, dict_get impression_data ''impression'' impression_built_text)))"

section \<open>services/weight\_service.py\<close>

text \<open>
  An entry of the in-memory history: the tuple \<open>(message_id, weight_score,
  weight_level, timestamp, message[:100], context[:100])\<close>, with its components named.
  The level is the string the classifier or the default rule gave, or whatever value
  a JSON answer holds under \<open>weight_level\<close>.
\<close>

record weight_record =
  wr_message_id :: pystr
  wr_weight_score :: real
  wr_weight_level :: pyval
  wr_timestamp :: datetime
  wr_message :: pystr
  wr_context :: pystr

text \<open>
  The service: the thresholds and the mode read from the configuration at
  construction, \<open>weight_evaluation_prompt\<close> for
  \<open>prompts_config.get("weight_evaluation_prompt", "")\<close>, and the history
  \<open>message_weights\<close>, a \<open>defaultdict(list)\<close>.
\<close>

record WeightService =
  high_threshold :: real
  medium_threshold :: real
  filter_mode :: pystr
  weight_evaluation_prompt :: pystr
  message_weights :: "pystr \<rightharpoonup> weight_record list"

text \<open>\<open>WeightService(llm_client, config)\<close> with the defaults of \<open>__init__\<close>.\<close>

definition new_WeightService :: WeightService where
  "new_WeightService =
     \<lparr> high_threshold = 70, medium_threshold = 40, filter_mode = str_of ''selective'',
       weight_evaluation_prompt = [], message_weights = Map.empty \<rparr>"

text \<open>
  \<open>self.message_weights.get(user_id, [])\<close>; reading \<open>self.message_weights[user_id]\<close>
  gives the same list, since the default of the dictionary is the empty list.
\<close>

definition user_messages :: "WeightService \<Rightarrow> pystr \<Rightarrow> weight_record list" where
  "user_messages self user_id =
     (case message_weights self user_id of Some xs \<Rightarrow> xs | None \<Rightarrow> [])"

definition default_weight_prompt_head :: pystr where
  "default_weight_prompt_head =
     [35780, 20272, 28040, 24687, 26435, 37325, 65288, 48, 45, 49, 48, 48, 65289, 65292, 29992,
      20110, 21028, 26029, 26159, 21542, 29992, 20110, 26500, 24314, 29992, 25143, 21360, 35937,
      12290, 26435, 37325, 35780, 20272, 26631, 20934, 65306, 39640, 26435, 37325, 40, 55, 48,
      45, 49, 48, 48, 41, 58, 32, 21253, 21547, 37325, 35201, 20010, 20154, 20449, 24687, 12289,
      20852, 36259, 29233, 22909, 12289, 20215, 20540, 35266, 12289, 24773, 24863, 34920, 36798,
      12289, 28145, 24230, 24605, 32771, 12289, 29420, 29305, 35266, 28857, 12289, 29983, 27963,
      32463, 21382, 20998, 20139, 65307, 20013, 26435, 37325, 40, 52, 48, 45, 54, 57, 41, 58,
      32, 19968, 33324, 26085, 24120, 23545, 35805, 12289, 31616, 21333, 25552, 38382, 12289,
      23458, 35266, 38472, 36848, 12289, 22522, 30784, 20449, 24687, 20132, 27969, 65307, 20302,
      26435, 37325, 40, 48, 45, 51, 57, 41, 58, 32, 31616, 21333, 38382, 20505, 12289, 23458,
      22871, 35805, 12289, 26080, 23454, 36136, 20869, 23481, 30340, 20114, 21160, 12289, 34920,
      24773, 31526, 21495, 12290, 29305, 21035, 27880, 24847, 65306, 20998, 20139, 20010, 20154,
      21916, 22909, 65288, 22914, 20070, 31821, 12289, 38899, 20048, 12289, 30005, 24433, 31561,
      65289, 12289, 35810, 38382, 23545, 26041, 20559, 22909, 12289, 34920, 36798, 20010, 20154,
      35266, 28857, 37117, 24212, 35813, 32473, 20104, 36739, 39640, 26435, 37325, 12290, 21482,
      36820, 22238, 38190, 20540, 23545, 26684, 24335, 65306, 87, 69, 73, 71, 72, 84, 95, 83,
      67, 79, 82, 69, 58, 32, 20998, 25968, 59, 87, 69, 73, 71, 72, 84, 95, 76, 69, 86, 69, 76,
      58, 32, 104, 105, 103, 104, 47, 109, 101, 100, 105, 117, 109, 47, 108, 111, 119, 59, 82,
      69, 65, 83, 79, 78, 58, 32, 35780, 20272, 21407, 22240, 59, 28040, 24687, 58, 32]"

text \<open>\<open>;\<close>, U+4E0A U+4E0B U+6587, \<open>:\<close>, space: the text between the two placeholders.\<close>

definition default_weight_prompt_mid :: pystr where
  "default_weight_prompt_mid = [59, 19978, 19979, 25991, 58, 32]"

definition build_weight_prompt :: "pylib \<Rightarrow> WeightService \<Rightarrow> pystr \<Rightarrow> pystr \<Rightarrow> pystr + pystr" where
  "build_weight_prompt lib self message context =
     (let template = strip (weight_evaluation_prompt self) in
      if template \<noteq> [] then
        str_format lib template [(''message'', message), (''context'', context)]
      else Inr (default_weight_prompt_head @ message @ default_weight_prompt_mid @ context))"

text \<open>
  The three patterns of \<open>_parse_weight_response\<close>:
  \<open>WEIGHT_SCORE:\s*([\d.]+)\<close>, \<open>WEIGHT_LEVEL:\s*(\w+)\<close> and
  \<open>REASON:\s*(.+?)(?:\n|;\<close>U+6D88 U+606F\<open>:|$)\<close>
  (46 is the full stop, 95 the underscore, 10 the newline).
\<close>

definition score_pattern :: "pylib \<Rightarrow> item list" where
  "score_pattern lib =
     [Atoms (literal (str_of ''WEIGHT_SCORE:'') @
             [Many0 isspace, Open_paren, Many1 (\<lambda>c. isdecimal lib c \<or> c = 46), Close_paren])]"

definition level_pattern :: "pylib \<Rightarrow> item list" where
  "level_pattern lib =
     [Atoms (literal (str_of ''WEIGHT_LEVEL:'') @
             [Many0 isspace, Open_paren, Many1 (\<lambda>c. isalnum lib c \<or> c = 95), Close_paren])]"

definition reason_pattern :: "item list" where
  "reason_pattern =
     [Atoms (literal (str_of ''REASON:'') @
             [Many0 isspace, Open_paren, Lazy1 (\<lambda>c. c \<noteq> 10), Close_paren]),
      Alt [[Char_in (lit_ci 10)], literal [59, 28040, 24687, 58], [Eol]]]"

text \<open>
  The result of the parser is a dictionary, the association list of its entries;
  \<open>None\<close> is Python's \<open>None\<close>. Method 2 runs only when method 1 found no score, since
  a score that was found is always stored (123 and 125 are the braces).
\<close>

definition parse_method1 :: "pylib \<Rightarrow> pystr \<Rightarrow> (pystr \<times> pyval) list" where
  "parse_method1 lib content =
     (case re_search (score_pattern lib) content of
        Some g \<Rightarrow> [(str_of ''weight_score'',
                     PFloat (case float_of_str lib g of Inr x \<Rightarrow> x | Inl e \<Rightarrow> 0))]
      | None \<Rightarrow> []) @
     (case re_search (level_pattern lib) content of
        Some g \<Rightarrow> [(str_of ''weight_level'', PStr (str_lower lib (strip g)))]
      | None \<Rightarrow> []) @
     (case re_search reason_pattern content of
        Some g \<Rightarrow> [(str_of ''reason'', PStr (strip g))]
      | None \<Rightarrow> [])"

definition parse_method2 :: "pylib \<Rightarrow> pystr \<Rightarrow> (pystr \<times> pyval) list option" where
  "parse_method2 lib content =
     (case (find_char 123 content, rfind_char 125 content) of
        (Some start, Some end') \<Rightarrow>
          if end' > start then
            (case json_loads lib (take (end' + 1 - start) (drop start content)) of
               Inr (PDict json_result) \<Rightarrow>
                 if map_of json_result (str_of ''weight_score'') \<noteq> None
                 then Some json_result else None
             | _ \<Rightarrow> None)
          else None
      | _ \<Rightarrow> None)"

definition parse_weight_response :: "pylib \<Rightarrow> pystr \<Rightarrow> (pystr \<times> pyval) list option" where
  "parse_weight_response lib content0 =
     (let content = strip content0 in
      if length content < 10 then None
      else
        let result = parse_method1 lib content in
        if result \<noteq> [] \<and> map_of result (str_of ''weight_score'') \<noteq> None then Some result
        else parse_method2 lib content)"

definition save_weight ::
  "WeightService \<Rightarrow> datetime \<Rightarrow> pystr \<Rightarrow> pystr \<Rightarrow> pystr \<Rightarrow> pystr \<Rightarrow> real \<Rightarrow> pyval \<Rightarrow> WeightService" where
  "save_weight self now user_id message_id message context weight_score weight_level =
     (let appended = user_messages self user_id @
            [\<lparr> wr_message_id = message_id, wr_weight_score = weight_score,
               wr_weight_level = weight_level, wr_timestamp = now,
               wr_message = take 100 message, wr_context = take 100 context \<rparr>];
          kept = (if length appended > 100 then drop (length appended - 100) appended
                  else appended)
      in self\<lparr>message_weights := (message_weights self)(user_id \<mapsto> kept)\<rparr>)"

definition save_default_weight ::
  "WeightService \<Rightarrow> datetime \<Rightarrow> pystr \<Rightarrow> pystr \<Rightarrow> pystr \<Rightarrow> pystr \<Rightarrow>
   WeightService \<times> bool \<times> real \<times> pyval" where
  "save_default_weight self now user_id message_id message context =
     (let (weight_score, weight_level) =
            (if length message > 20 then (50, PStr (str_of ''medium''))
             else (20, PStr (str_of ''low'')))
      in (save_weight self now user_id message_id message context weight_score weight_level,
          True, weight_score, weight_level))"

text \<open>The text of the failure result: U+8BC4 U+4F30 U+6743 U+91CD U+5931 U+8D25 \<open>:\<close>.\<close>

definition evaluate_failed_text :: pystr where
  "evaluate_failed_text = [35780, 20272, 26435, 37325, 22833, 36133, 58, 32]"

definition evaluate_message ::
  "pylib \<Rightarrow> llm_client \<Rightarrow> datetime \<Rightarrow> WeightService \<Rightarrow> pystr \<Rightarrow> pystr \<Rightarrow> pystr \<Rightarrow> pystr \<Rightarrow>
   WeightService \<times> bool \<times> real \<times> pyval" where
  "evaluate_message lib generate_weight_evaluation now self user_id message_id message context =
     (case find (\<lambda>msg_record. wr_message_id msg_record = message_id)
             (user_messages self user_id) of
        Some msg_record \<Rightarrow> (self, True, wr_weight_score msg_record, wr_weight_level msg_record)
      | None \<Rightarrow>
          (case build_weight_prompt lib self message context of
             Inl e \<Rightarrow> (self, False, 0, PStr (evaluate_failed_text @ e))
           | Inr prompt \<Rightarrow>
               (case generate_weight_evaluation prompt of (success, content) \<Rightarrow>
                  if \<not> success then save_default_weight self now user_id message_id message context
                  else
                    (case parse_weight_response lib content of
                       None \<Rightarrow> save_default_weight self now user_id message_id message context
                     | Some result \<Rightarrow>
                         (case py_float lib (dict_get result (str_of ''weight_score'') (PFloat 0)) of
                            Inl e \<Rightarrow> (self, False, 0, PStr (evaluate_failed_text @ e))
                          | Inr weight_score \<Rightarrow>
                              let weight_level =
                                    dict_get result (str_of ''weight_level'') (PStr (str_of ''low''))
                              in (save_weight self now user_id message_id message context
                                    weight_score weight_level,
                                  True, weight_score, weight_level))))))"

text \<open>
  \<open>xs.sort(key=lambda x: x[3], reverse=True)\<close>: a stable sort by falling timestamp,
  entries of equal timestamp staying in their order.
\<close>

definition sort_by_timestamp_reverse :: "weight_record list \<Rightarrow> weight_record list" where
  "sort_by_timestamp_reverse xs = rev (sort_key wr_timestamp (rev xs))"

text \<open>
  The texts of the context block: \<open>(\<close>U+6743 U+91CD\<open>:\<close>, \<open>,\<close> U+7B49 U+7EA7\<open>:\<close>, the
  heading U+6700 U+8FD1 U+5BF9 U+8BDD U+8BB0 U+5F55 \<open>(\<close>U+5171, and U+6761\<open>):\<close>.
\<close>

definition render_record :: "pylib \<Rightarrow> weight_record \<Rightarrow> pystr" where
  "render_record lib msg_record =
     (let context_str = [91] @ strftime lib (wr_timestamp msg_record) @ [93, 32] @
                        wr_message msg_record
      in if wr_weight_score msg_record > 0
         then context_str @ [32, 40, 26435, 37325, 58, 32] @
              format_1f lib (wr_weight_score msg_record) @ [44, 32, 31561, 32423, 58, 32] @
              str_pyval lib (wr_weight_level msg_record) @ [41]
         else context_str)"

definition get_filtered_messages ::
  "pylib \<Rightarrow> WeightService \<Rightarrow> pystr \<Rightarrow> int \<Rightarrow> pystr \<times> pystr list" where
  "get_filtered_messages lib self user_id limit =
     (if filter_mode self = str_of ''disabled'' then ([], [])
      else
        let filtered_messages =
              filter (\<lambda>msg_record.
                        if filter_mode self = str_of ''selective''
                        then wr_weight_score msg_record \<ge> high_threshold self
                        else if filter_mode self = str_of ''balanced''
                        then wr_weight_score msg_record \<ge> medium_threshold self
                        else True)
                (user_messages self user_id);
            selected = slice_to limit (sort_by_timestamp_reverse filtered_messages)
        in if selected = [] then ([], [])
           else
             let contexts = map (render_record lib) selected;
                 message_ids = map wr_message_id selected
             in ([10, 10, 26368, 36817, 23545, 35805, 35760, 24405, 32, 40, 20849, 32] @
                 str_nat (length contexts) @ [32, 26465, 41, 58, 10] @ join [10] contexts,
                 message_ids))"

section \<open>plugin.py: the admission decision of ImpressionUpdateHandler.handle\<close>

text \<open>
  The handler computes \<open>should_update_impression\<close> from the result of
  \<open>evaluate_message\<close> and the configuration of the weight service, and calls
  \<open>build_impression\<close> only when it is true.
\<close>

definition should_update_impression :: "WeightService \<Rightarrow> bool \<Rightarrow> real \<Rightarrow> bool" where
  "should_update_impression weight_service weight_success weight_score =
     (if weight_success then
        (if filter_mode weight_service = str_of ''disabled'' then True
         else if filter_mode weight_service = str_of ''selective''
         then weight_score \<ge> high_threshold weight_service
         else if filter_mode weight_service = str_of ''balanced''
         then weight_score \<ge> medium_threshold weight_service
         else False)
      else False)"

section \<open>Runs of the weight service and values for examples\<close>

text \<open>
  A run of \<open>_save_weight\<close> calls for one user, each call given as
  (now, message id, message, context, score, level), and the entry a call appends.
\<close>

type_synonym save_call = "datetime \<times> pystr \<times> pystr \<times> pystr \<times> real \<times> pyval"

definition record_of :: "save_call \<Rightarrow> weight_record" where
  "record_of c =
     (case c of (now, message_id, message, context, weight_score, weight_level) \<Rightarrow>
        \<lparr> wr_message_id = message_id, wr_weight_score = weight_score,
          wr_weight_level = weight_level, wr_timestamp = now,
          wr_message = take 100 message, wr_context = take 100 context \<rparr>)"

fun save_weights :: "WeightService \<Rightarrow> pystr \<Rightarrow> save_call list \<Rightarrow> WeightService" where
  "save_weights self user_id [] = self"
| "save_weights self user_id ((now, message_id, message, context, weight_score, weight_level) # cs) =
     save_weights
       (save_weight self now user_id message_id message context weight_score weight_level)
       user_id cs"

text \<open>
  A run of \<open>evaluate_message\<close> calls on one service, each call with the library, the
  client and the clock it meets: (library, client, now, user id, message id, message,
  context).
\<close>

type_synonym evaluate_call =
  "pylib \<times> llm_client \<times> datetime \<times> pystr \<times> pystr \<times> pystr \<times> pystr"

fun run_evaluations :: "WeightService \<Rightarrow> evaluate_call list \<Rightarrow> WeightService" where
  "run_evaluations self [] = self"
| "run_evaluations self ((lib, generate, now, user_id, message_id, message, context) # cs) =
     run_evaluations
       (fst (evaluate_message lib generate now self user_id message_id message context)) cs"

text \<open>
  A library for examples: the ASCII part of the character tables, a \<open>format\<close> that
  returns the template, and a \<open>float\<close> and a JSON decoder that reject their input.
\<close>

definition ascii_lib :: pylib where
  "ascii_lib =
     \<lparr> str_format = (\<lambda>t kw. Inr t), float_of_str = (\<lambda>s. Inl []),
       float_type_error = (\<lambda>v. []), json_loads = (\<lambda>s. Inl []),
       isdecimal = (\<lambda>c. 48 \<le> c \<and> c \<le> 57),
       isalnum = (\<lambda>c. (48 \<le> c \<and> c \<le> 57) \<or> (65 \<le> c \<and> c \<le> 90) \<or> (97 \<le> c \<and> c \<le> 122)),
       str_lower = map sre_lower, strftime = (\<lambda>t. []), format_1f = (\<lambda>x. []),
       str_pyval = (\<lambda>v. []) \<rparr>"

text \<open>
  A service whose history for user \<open>u\<close> (code point 117) already holds message \<open>1\<close>
  (code point 49) with score 80.
\<close>

definition cached_record :: weight_record where
  "cached_record =
     \<lparr> wr_message_id = [49], wr_weight_score = 80, wr_weight_level = PStr (str_of ''high''),
       wr_timestamp = 3, wr_message = str_of ''hi'', wr_context = [] \<rparr>"

definition cached_service :: WeightService where
  "cached_service = new_WeightService\<lparr>message_weights := [[117] \<mapsto> [cached_record]]\<rparr>"

text \<open>
  Call number \<open>i\<close> of a numbered run of \<open>_save_weight\<close>: message id and time are \<open>i\<close>.
\<close>

definition numbered_call :: "nat \<Rightarrow> save_call" where
  "numbered_call i = (int i, [i], [], [], 50, PStr (str_of ''medium''))"

text \<open>
  A service with a filter mode that is none of the three named ones, whose history
  for user \<open>u\<close> holds message \<open>1\<close> of time 3 and message \<open>2\<close> of time 5, both scored
  below the thresholds.
\<close>

definition unfiltered_service :: WeightService where
  "unfiltered_service =
     new_WeightService
       \<lparr> filter_mode := str_of ''all'',
         message_weights :=
           [[117] \<mapsto>
              [\<lparr> wr_message_id = [49], wr_weight_score = 10, wr_weight_level = PStr (str_of ''low''),
                 wr_timestamp = 3, wr_message = str_of ''hi'', wr_context = [] \<rparr>,
               \<lparr> wr_message_id = [50], wr_weight_score = 0, wr_weight_level = PStr (str_of ''low''),
                 wr_timestamp = 5, wr_message = str_of ''yo'', wr_context = [] \<rparr>]] \<rparr>"

text \<open>
  Classifier responses for the impression parser. U+5F00 U+6717 is the value of
  \<open>personality_traits\<close> in them.
\<close>

definition example_response :: pystr where
  "example_response =
     str_of ''personality_traits: '' @ [24320, 26391] @ str_of '';interests_hobbies: '' @ sentinel"

definition sentinel_fallback_response :: pystr where
  "sentinel_fallback_response =
     str_of ''interests_hobbies: '' @ sentinel @ str_of '';IMPRESSION: '' @ sentinel"

definition traits_only_response :: pystr where
  "traits_only_response = str_of ''personality_traits: '' @ [24320, 26391]"

text \<open>A profile table in which user \<open>u\<close> has the interest \<open>chess\<close> on record.\<close>

definition chess_table :: impression_table where
  "chess_table =
     [[117] \<mapsto> (new_UserImpression [117] 1)\<lparr>interests_hobbies := str_of ''chess''\<rparr>]"

section \<open>Properties of the message service\<close>

lemma update_message_state_other:
  "v \<noteq> u \<Longrightarrow> update_message_state tbl now u m iu au v = tbl v"
  by (simp add: update_message_state_def ums_get_or_create_def Let_def split: option.splits)

lemma update_message_state_same:
  "\<exists>s. update_message_state tbl now u m iu au u = Some s \<and>
       total_messages s =
         total_messages (case tbl u of Some s0 \<Rightarrow> s0 | None \<Rightarrow> new_UserMessageState u) + 1 \<and>
       processed_messages s =
         processed_messages (case tbl u of Some s0 \<Rightarrow> s0 | None \<Rightarrow> new_UserMessageState u) + 1"
  by (simp add: update_message_state_def ums_get_or_create_def Let_def split: option.splits)

lemma update_message_state_agree:
  assumes "\<And>v s. tbl v = Some s \<Longrightarrow> total_messages s = processed_messages s"
    and "update_message_state tbl now u m iu au v = Some s"
  shows "total_messages s = processed_messages s"
proof (cases "v = u")
  case False
  with assms show ?thesis by (simp add: update_message_state_other)
next
  case True
  obtain s' where s': "update_message_state tbl now u m iu au u = Some s'"
    "total_messages s' =
       total_messages (case tbl u of Some s0 \<Rightarrow> s0 | None \<Rightarrow> new_UserMessageState u) + 1"
    "processed_messages s' =
       processed_messages (case tbl u of Some s0 \<Rightarrow> s0 | None \<Rightarrow> new_UserMessageState u) + 1"
    using update_message_state_same by blast
  have "total_messages (case tbl u of Some s0 \<Rightarrow> s0 | None \<Rightarrow> new_UserMessageState u) =
        processed_messages (case tbl u of Some s0 \<Rightarrow> s0 | None \<Rightarrow> new_UserMessageState u)"
    using assms(1) by (cases "tbl u") (simp_all add: new_UserMessageState_def)
  with s' assms(2) True show ?thesis by simp
qed

lemma run_state_calls_agree:
  assumes "\<And>v s. tbl v = Some s \<Longrightarrow> total_messages s = processed_messages s"
    and "run_state_calls tbl cs v = Some s"
  shows "total_messages s = processed_messages s"
  using assms
proof (induction cs arbitrary: tbl)
  case Nil
  then show ?case by simp
next
  case (Cons c cs)
  obtain now u m iu au where c: "c = (now, u, m, iu, au)" by (cases c) auto
  show ?case
  proof (rule Cons.IH)
    show "run_state_calls (update_message_state tbl now u m iu au) cs v = Some s"
      using Cons.prems(2) c by simp
  next
    fix w t
    assume "update_message_state tbl now u m iu au w = Some t"
    then show "total_messages t = processed_messages t"
      using update_message_state_agree Cons.prems(1) by blast
  qed
qed

text \<open>
  C8. Both counters of a fresh row are 0; one call of \<open>update_message_state\<close> raises
  \<open>total_messages\<close> and \<open>processed_messages\<close> of the user's row by exactly 1 each,
  whatever the two update flags are, and so does \<open>increment_counters\<close> on a row; hence
  in a table built from the empty table by calls of \<open>update_message_state\<close> alone,
  every row has \<open>total_messages = processed_messages\<close>.
\<close>

theorem C8_counters_agree:
  "total_messages (new_UserMessageState u) = 0 \<and>
   processed_messages (new_UserMessageState u) = 0 \<and>
   (\<exists>s. update_message_state tbl now u m iu au u = Some s \<and>
        total_messages s =
          total_messages (case tbl u of Some s0 \<Rightarrow> s0 | None \<Rightarrow> new_UserMessageState u) + 1 \<and>
        processed_messages s =
          processed_messages (case tbl u of Some s0 \<Rightarrow> s0 | None \<Rightarrow> new_UserMessageState u) + 1) \<and>
   total_messages (increment_counters row now iu au) = total_messages row + 1 \<and>
   processed_messages (increment_counters row now iu au) = processed_messages row + 1 \<and>
   (\<forall>v s. run_state_calls Map.empty cs v = Some s \<longrightarrow>
          total_messages s = processed_messages s)"
proof -
  have "\<And>v s. run_state_calls Map.empty cs v = Some s \<Longrightarrow>
          total_messages s = processed_messages s"
    by (rule run_state_calls_agree [where tbl = Map.empty]) simp_all
  then show ?thesis
    using update_message_state_same [of tbl now u m iu au]
    by (simp add: new_UserMessageState_def increment_counters_def Let_def)
qed

theorem C8_counters_agree_witness:
  "run_state_calls Map.empty [(1, [117], [49], True, False), (2, [117], [50], False, True)] [117]
     = Some \<lparr> ums_user_id = [117], last_message_id = Some [50], last_message_time = Some 2,
              impression_update_count = 1, affection_update_count = 1,
              total_messages = 2, processed_messages = 2 \<rparr> \<and>
   total_messages \<lparr> ums_user_id = [117], last_message_id = Some [50], last_message_time = Some 2,
              impression_update_count = 1, affection_update_count = 1,
              total_messages = 2, processed_messages = (2::int) \<rparr> =
   processed_messages \<lparr> ums_user_id = [117], last_message_id = Some [50], last_message_time = Some 2,
              impression_update_count = 1, affection_update_count = 1,
              total_messages = (2::int), processed_messages = 2 \<rparr>"
proof -
  have h: "run_state_calls Map.empty
             [(1, [117], [49], True, False), (2, [117], [50], False, True)] [117]
           = Some \<lparr> ums_user_id = [117], last_message_id = Some [50], last_message_time = Some 2,
              impression_update_count = 1, affection_update_count = 1,
              total_messages = 2, processed_messages = 2 \<rparr>"
    by (simp add: update_message_state_def ums_get_or_create_def new_UserMessageState_def)
  from C8_counters_agree [where u = "[117]" and tbl = Map.empty and now = 1 and m = "[49]"
      and iu = True and au = False
      and cs = "[(1, [117], [49], True, False), (2, [117], [50], False, True)]"]
  have "\<forall>v s. run_state_calls Map.empty
             [(1, [117], [49], True, False), (2, [117], [50], False, True)] v = Some s \<longrightarrow>
          total_messages s = processed_messages s"
    by blast
  with h show ?thesis by blast
qed

lemma imr_select_first_None:
  "(imr_select_first tbl u m = None) =
   ((u, m) \<notin> set (map (\<lambda>r. (imr_user_id r, imr_message_id r)) tbl))"
  by (auto simp: imr_select_first_def find_None_iff)

lemma imr_select_first_append:
  "imr_select_first tbl u m = None \<Longrightarrow> imr_user_id r = u \<Longrightarrow> imr_message_id r = m \<Longrightarrow>
   imr_select_first (tbl @ [r]) u m = Some r"
  by (induction tbl) (auto simp: imr_select_first_def split: if_splits)

text \<open>
  C6. Let the pair (user id, message id) have no row in the table. Then
  \<open>is_message_processed\<close> returns False; the first \<open>record_processed_message\<close>
  returns True; after it \<open>is_message_processed\<close> returns True; and a second
  \<open>record_processed_message\<close> for the same pair returns False and leaves the table as
  the first call left it.
\<close>

theorem C6_dedup_contract:
  assumes "(u, m) \<notin> set (map (\<lambda>r. (imr_user_id r, imr_message_id r)) tbl)"
  shows "\<not> is_message_processed tbl u m \<and>
         snd (record_processed_message tbl now1 u m i1) = True \<and>
         is_message_processed (fst (record_processed_message tbl now1 u m i1)) u m \<and>
         record_processed_message (fst (record_processed_message tbl now1 u m i1)) now2 u m i2
           = (fst (record_processed_message tbl now1 u m i1), False)"
proof -
  have none: "imr_select_first tbl u m = None"
    using assms by (simp add: imr_select_first_None)
  have fresh: "\<not> (\<exists>x \<in> set tbl. imr_user_id x = u \<and> imr_message_id x = m)"
    using assms by force
  let ?r = "\<lparr> imr_user_id = u, imr_message_id = m, impression_id = i1, processed_at = now1 \<rparr>"
  have first: "record_processed_message tbl now1 u m i1 = (tbl @ [?r], True)"
    using none fresh by (simp add: record_processed_message_def imr_create_def)
  have found: "imr_select_first (tbl @ [?r]) u m = Some ?r"
    using none by (simp add: imr_select_first_append)
  show ?thesis
    using none first found
    by (simp add: is_message_processed_def record_processed_message_def)
qed

theorem C6_dedup_contract_witness:
  "([117], [49]) \<notin> set (map (\<lambda>r. (imr_user_id r, imr_message_id r))
       [\<lparr> imr_user_id = [117], imr_message_id = [48], impression_id = None, processed_at = 5 \<rparr>]) \<and>
   \<not> is_message_processed
       [\<lparr> imr_user_id = [117], imr_message_id = [48], impression_id = None, processed_at = 5 \<rparr>]
       [117] [49] \<and>
   record_processed_message
       [\<lparr> imr_user_id = [117], imr_message_id = [48], impression_id = None, processed_at = 5 \<rparr>]
       6 [117] [49] None
     = ([\<lparr> imr_user_id = [117], imr_message_id = [48], impression_id = None, processed_at = 5 \<rparr>,
         \<lparr> imr_user_id = [117], imr_message_id = [49], impression_id = None, processed_at = 6 \<rparr>],
        True) \<and>
   is_message_processed
       [\<lparr> imr_user_id = [117], imr_message_id = [48], impression_id = None, processed_at = 5 \<rparr>,
        \<lparr> imr_user_id = [117], imr_message_id = [49], impression_id = None, processed_at = 6 \<rparr>]
       [117] [49] \<and>
   record_processed_message
       [\<lparr> imr_user_id = [117], imr_message_id = [48], impression_id = None, processed_at = 5 \<rparr>,
        \<lparr> imr_user_id = [117], imr_message_id = [49], impression_id = None, processed_at = 6 \<rparr>]
       7 [117] [49] None
     = ([\<lparr> imr_user_id = [117], imr_message_id = [48], impression_id = None, processed_at = 5 \<rparr>,
         \<lparr> imr_user_id = [117], imr_message_id = [49], impression_id = None, processed_at = 6 \<rparr>],
        False)"
proof -
  have h: "([117], [49]) \<notin> set (map (\<lambda>r. (imr_user_id r, imr_message_id r))
       [\<lparr> imr_user_id = [117], imr_message_id = [48], impression_id = None, processed_at = 5 \<rparr>])"
    by simp
  have first: "record_processed_message
       [\<lparr> imr_user_id = [117], imr_message_id = [48], impression_id = None, processed_at = 5 \<rparr>]
       6 [117] [49] None
     = ([\<lparr> imr_user_id = [117], imr_message_id = [48], impression_id = None, processed_at = 5 \<rparr>,
         \<lparr> imr_user_id = [117], imr_message_id = [49], impression_id = None, processed_at = 6 \<rparr>],
        True)"
    by (simp add: record_processed_message_def imr_select_first_def imr_create_def)
  show ?thesis
    using h first C6_dedup_contract [OF h, of 6 None 7 None]
    by simp
qed

section \<open>Properties of the weight service\<close>

lemma mode_names_distinct:
  "str_of ''disabled'' \<noteq> str_of ''selective''"
  "str_of ''disabled'' \<noteq> str_of ''balanced''"
  "str_of ''selective'' \<noteq> str_of ''balanced''"
  "str_of ''selective'' \<noteq> str_of ''disabled''"
  "str_of ''balanced'' \<noteq> str_of ''disabled''"
  "str_of ''balanced'' \<noteq> str_of ''selective''"
  by (simp_all add: str_of_def)

text \<open>
  C3. When the weight evaluation succeeded with score \<open>s\<close>, the handler admits the
  message to the impression update always under \<open>disabled\<close>, exactly when
  \<open>s \<ge> high_threshold\<close> under \<open>selective\<close>, and exactly when \<open>s \<ge> medium_threshold\<close>
  under \<open>balanced\<close>. With the thresholds 70 and 40: 75 is admitted under \<open>selective\<close>
  and \<open>balanced\<close>, 50 under \<open>balanced\<close> only, 20 under neither, and all three under
  \<open>disabled\<close>.
\<close>

theorem C3_admission:
  "(filter_mode svc = str_of ''disabled'' \<longrightarrow> should_update_impression svc True s) \<and>
   (filter_mode svc = str_of ''selective'' \<longrightarrow>
      should_update_impression svc True s = (s \<ge> high_threshold svc)) \<and>
   (filter_mode svc = str_of ''balanced'' \<longrightarrow>
      should_update_impression svc True s = (s \<ge> medium_threshold svc)) \<and>
   (high_threshold svc = 70 \<and> medium_threshold svc = 40 \<longrightarrow>
      (filter_mode svc = str_of ''selective'' \<longrightarrow>
         should_update_impression svc True 75 \<and> \<not> should_update_impression svc True 50 \<and>
         \<not> should_update_impression svc True 20) \<and>
      (filter_mode svc = str_of ''balanced'' \<longrightarrow>
         should_update_impression svc True 75 \<and> should_update_impression svc True 50 \<and>
         \<not> should_update_impression svc True 20) \<and>
      (filter_mode svc = str_of ''disabled'' \<longrightarrow>
         should_update_impression svc True 75 \<and> should_update_impression svc True 50 \<and>
         should_update_impression svc True 20))"
  by (simp add: should_update_impression_def mode_names_distinct)

theorem C3_admission_witness:
  "filter_mode new_WeightService = str_of ''selective'' \<and>
   high_threshold new_WeightService = 70 \<and> medium_threshold new_WeightService = 40 \<and>
   should_update_impression new_WeightService True 75 \<and>
   \<not> should_update_impression new_WeightService True 50 \<and>
   \<not> should_update_impression new_WeightService True 20 \<and>
   should_update_impression (new_WeightService\<lparr>filter_mode := str_of ''balanced''\<rparr>) True 75 \<and>
   should_update_impression (new_WeightService\<lparr>filter_mode := str_of ''balanced''\<rparr>) True 50 \<and>
   \<not> should_update_impression (new_WeightService\<lparr>filter_mode := str_of ''balanced''\<rparr>) True 20 \<and>
   should_update_impression (new_WeightService\<lparr>filter_mode := str_of ''disabled''\<rparr>) True 20"
proof -
  have sel: "filter_mode new_WeightService = str_of ''selective''"
    "high_threshold new_WeightService = 70" "medium_threshold new_WeightService = 40"
    by (simp_all add: new_WeightService_def)
  have bal: "filter_mode (new_WeightService\<lparr>filter_mode := str_of ''balanced''\<rparr>)
               = str_of ''balanced''"
    "high_threshold (new_WeightService\<lparr>filter_mode := str_of ''balanced''\<rparr>) = 70"
    "medium_threshold (new_WeightService\<lparr>filter_mode := str_of ''balanced''\<rparr>) = 40"
    by (simp_all add: new_WeightService_def)
  have dis: "filter_mode (new_WeightService\<lparr>filter_mode := str_of ''disabled''\<rparr>)
               = str_of ''disabled''"
    by simp
  show ?thesis
    using sel bal dis
      C3_admission [of new_WeightService 75]
      C3_admission [of "new_WeightService\<lparr>filter_mode := str_of ''balanced''\<rparr>" 75]
      C3_admission [of "new_WeightService\<lparr>filter_mode := str_of ''disabled''\<rparr>" 20]
    by blast
qed


lemma user_messages_new [simp]: "user_messages new_WeightService u = []"
  by (simp add: user_messages_def new_WeightService_def)





lemma user_messages_save_weight:
  "user_messages (save_weight svc now u m msg ctx score level) v =
     (if v = u then
        (let appended = user_messages svc u @
            [\<lparr> wr_message_id = m, wr_weight_score = score, wr_weight_level = level,
               wr_timestamp = now, wr_message = take 100 msg, wr_context = take 100 ctx \<rparr>]
         in if length appended > 100 then drop (length appended - 100) appended else appended)
      else user_messages svc v)"
  by (simp add: save_weight_def user_messages_def Let_def)

lemma user_messages_cached [simp]: "user_messages cached_service [117] = [cached_record]"
  by (simp add: user_messages_def cached_service_def)

text \<open>
  C2, as stated, fails: when the message is already in the history,
  \<open>evaluate_message\<close> returns the cached score and level and leaves the history as
  it was. Here the history of the user holds one entry before and the same one entry
  after the call.
\<close>

theorem C2_cache_hit_counterexample:
  "find (\<lambda>r. wr_message_id r = [49]) (user_messages cached_service [117]) = Some cached_record \<and>
   evaluate_message ascii_lib (\<lambda>p. (True, [])) 7 cached_service [117] [49] (str_of ''hi'') [] =
     (cached_service, True, 80, PStr (str_of ''high'')) \<and>
   user_messages
     (fst (evaluate_message ascii_lib (\<lambda>p. (True, [])) 7 cached_service [117] [49]
             (str_of ''hi'') [])) [117] = [cached_record] \<and>
   length (user_messages
     (fst (evaluate_message ascii_lib (\<lambda>p. (True, [])) 7 cached_service [117] [49]
             (str_of ''hi'') [])) [117]) = length (user_messages cached_service [117])"
  by (simp add: evaluate_message_def cached_record_def)

text \<open>
  C2, amended. On a cache hit \<open>evaluate_message\<close> returns the cached score and level
  and does not change the service. On a cache miss, whenever it returns success, the
  user's history afterwards is the history before with the evaluated message
  appended, cut to its last 100 entries.
\<close>

theorem C2_history_append:
  "(find (\<lambda>r. wr_message_id r = m) (user_messages svc u) = Some r \<longrightarrow>
      evaluate_message lib generate now svc u m msg ctx =
        (svc, True, wr_weight_score r, wr_weight_level r)) \<and>
   (find (\<lambda>r. wr_message_id r = m) (user_messages svc u) = None \<longrightarrow>
    evaluate_message lib generate now svc u m msg ctx = (svc', True, score, level) \<longrightarrow>
      user_messages svc' u =
        (let appended = user_messages svc u @
            [\<lparr> wr_message_id = m, wr_weight_score = score, wr_weight_level = level,
               wr_timestamp = now, wr_message = take 100 msg, wr_context = take 100 ctx \<rparr>]
         in if length appended > 100 then drop (length appended - 100) appended else appended))"
  by (auto simp: evaluate_message_def save_default_weight_def user_messages_save_weight Let_def
           split: sum.splits option.splits prod.splits if_splits)

theorem C2_history_append_witness:
  "find (\<lambda>r. wr_message_id r = [49]) (user_messages cached_service [117]) = Some cached_record \<and>
   evaluate_message ascii_lib (\<lambda>p. (True, [])) 7 cached_service [117] [49] (str_of ''hi'') [] =
     (cached_service, True, wr_weight_score cached_record, wr_weight_level cached_record) \<and>
   find (\<lambda>r. wr_message_id r = [50]) (user_messages cached_service [117]) = None \<and>
   evaluate_message ascii_lib (\<lambda>p. (False, [])) 7 cached_service [117] [50] (str_of ''yo'') [] =
     (save_weight cached_service 7 [117] [50] (str_of ''yo'') [] 20 (PStr (str_of ''low'')),
      True, 20, PStr (str_of ''low'')) \<and>
   user_messages
     (save_weight cached_service 7 [117] [50] (str_of ''yo'') [] 20 (PStr (str_of ''low''))) [117] =
     [cached_record,
      \<lparr> wr_message_id = [50], wr_weight_score = 20, wr_weight_level = PStr (str_of ''low''),
        wr_timestamp = 7, wr_message = take 100 (str_of ''yo''), wr_context = take 100 [] \<rparr>]"
proof -
  have hit: "find (\<lambda>r. wr_message_id r = [49]) (user_messages cached_service [117])
               = Some cached_record"
    by (simp add: cached_record_def)
  have miss: "find (\<lambda>r. wr_message_id r = [50]) (user_messages cached_service [117]) = None"
    by (simp add: cached_record_def)
  have ev: "evaluate_message ascii_lib (\<lambda>p. (False, [])) 7 cached_service [117] [50]
              (str_of ''yo'') [] =
     (save_weight cached_service 7 [117] [50] (str_of ''yo'') [] 20 (PStr (str_of ''low'')),
      True, 20, PStr (str_of ''low''))"
    using miss
    by (simp add: evaluate_message_def save_default_weight_def build_weight_prompt_def
        cached_service_def new_WeightService_def strip_def str_of_def)
  show ?thesis
    using hit miss ev
      C2_history_append [where m = "[49]" and svc = cached_service and u = "[117]"
        and r = cached_record and lib = ascii_lib and generate = "\<lambda>p. (True, [])" and now = 7
        and msg = "str_of ''hi''" and ctx = "[]"]
      C2_history_append [where m = "[50]" and svc = cached_service and u = "[117]"
        and lib = ascii_lib and generate = "\<lambda>p. (False, [])" and now = 7
        and msg = "str_of ''yo''" and ctx = "[]"
        and svc' = "save_weight cached_service 7 [117] [50] (str_of ''yo'') [] 20
                      (PStr (str_of ''low''))"
        and score = 20 and level = "PStr (str_of ''low'')"]
    by simp
qed

lemma keep_last_step:
  "drop (length (drop (length ys - 100) ys @ zs) - 100) (drop (length ys - 100) ys @ zs) =
   drop (length (ys @ zs) - 100) (ys @ zs)"
proof (cases "length ys \<le> 100")
  case True
  then show ?thesis by simp
next
  case False
  define k where "k = length ys - 100"
  have k: "length ys = k + 100" using False by (simp add: k_def)
  have "drop (length (drop k ys @ zs) - 100) (drop k ys @ zs) = drop (length zs) (drop k ys @ zs)"
    by (simp add: k)
  also have "\<dots> = drop (length zs) (drop k (ys @ zs))"
    by (simp add: k)
  also have "\<dots> = drop (length zs + k) (ys @ zs)"
    by (simp only: drop_drop)
  also have "length zs + k = length (ys @ zs) - 100"
    by (simp add: k)
  finally show ?thesis by (simp add: k_def)
qed

lemma save_weight_history:
  "user_messages (save_weight svc now u m msg ctx score level) u =
     (let ys = user_messages svc u @ [record_of (now, m, msg, ctx, score, level)]
      in drop (length ys - 100) ys)"
  by (simp add: user_messages_save_weight record_of_def Let_def)

lemma save_weights_history:
  "length (user_messages svc u) \<le> 100 \<Longrightarrow>
   user_messages (save_weights svc u cs) u =
     drop (length (user_messages svc u @ map record_of cs) - 100)
          (user_messages svc u @ map record_of cs)"
proof (induction cs arbitrary: svc)
  case Nil
  then show ?case by simp
next
  case (Cons c cs)
  obtain now m msg ctx score level where c: "c = (now, m, msg, ctx, score, level)"
    by (cases c) auto
  let ?h = "user_messages svc u"
  let ?svc1 = "save_weight svc now u m msg ctx score level"
  let ?ys = "?h @ [record_of c]"
  have h1: "user_messages ?svc1 u = drop (length ?ys - 100) ?ys"
    using c by (simp add: save_weight_history Let_def)
  have len1: "length (user_messages ?svc1 u) \<le> 100"
    using Cons.prems by (simp add: h1)
  have "user_messages (save_weights svc u (c # cs)) u = user_messages (save_weights ?svc1 u cs) u"
    using c by simp
  also have "\<dots> = drop (length (user_messages ?svc1 u @ map record_of cs) - 100)
                        (user_messages ?svc1 u @ map record_of cs)"
    by (rule Cons.IH [OF len1])
  also have "\<dots> = drop (length (?h @ map record_of (c # cs)) - 100) (?h @ map record_of (c # cs))"
    using keep_last_step [of ?ys "map record_of cs"] by (simp add: h1)
  finally show ?case .
qed

lemma save_weight_bounded:
  "length (user_messages svc v) \<le> 100 \<Longrightarrow>
   length (user_messages (save_weight svc now u m msg ctx score level) v) \<le> 100"
  by (simp add: user_messages_save_weight Let_def)

lemma evaluate_message_bounded:
  "length (user_messages svc v) \<le> 100 \<Longrightarrow>
   length (user_messages (fst (evaluate_message lib generate now svc u m msg ctx)) v) \<le> 100"
  by (auto simp: evaluate_message_def save_default_weight_def Let_def save_weight_bounded
           split: sum.splits option.splits prod.splits)

lemma run_evaluations_bounded:
  "(\<And>v. length (user_messages svc v) \<le> 100) \<Longrightarrow>
   length (user_messages (run_evaluations svc calls) v) \<le> 100"
proof (induction calls arbitrary: svc)
  case Nil
  then show ?case by simp
next
  case (Cons c calls)
  obtain lib generate now u m msg ctx where c: "c = (lib, generate, now, u, m, msg, ctx)"
    by (cases c) auto
  show ?case
    unfolding c run_evaluations.simps
    by (rule Cons.IH) (rule evaluate_message_bounded, rule Cons.prems)
qed

text \<open>
  C5. Start from a service with an empty history. After any run of
  \<open>evaluate_message\<close> calls, the history of every user has at most 100 entries.
  After a run of \<open>_save_weight\<close> calls for one user, that user's history is the
  entries of the run without all but its last 100, in the order of the calls, so its
  length is the smaller of 100 and the number of calls.
\<close>

theorem C5_bounded_history:
  assumes "message_weights svc = Map.empty"
  shows "length (user_messages (run_evaluations svc calls) u) \<le> 100 \<and>
         user_messages (save_weights svc u cs) u = drop (length cs - 100) (map record_of cs) \<and>
         length (user_messages (save_weights svc u cs) u) = min 100 (length cs)"
proof -
  have empty: "\<And>v. user_messages svc v = []"
    using assms by (simp add: user_messages_def)
  have a: "length (user_messages (run_evaluations svc calls) u) \<le> 100"
    by (rule run_evaluations_bounded) (simp add: empty)
  have b: "user_messages (save_weights svc u cs) u = drop (length cs - 100) (map record_of cs)"
    using save_weights_history [of svc u cs] by (simp add: empty)
  show ?thesis using a b by auto
qed

theorem C5_bounded_history_witness:
  "message_weights new_WeightService = Map.empty \<and>
   length (user_messages
             (run_evaluations new_WeightService
                [(ascii_lib, (\<lambda>p. (False, [])), 7, [117], [49], str_of ''hi'', [])]) [117])
     \<le> 100 \<and>
   user_messages (save_weights new_WeightService [117] (map numbered_call [0..<150])) [117] =
     map (\<lambda>i. record_of (numbered_call i)) [50..<150] \<and>
   length (user_messages (save_weights new_WeightService [117] (map numbered_call [0..<150]))
             [117]) = 100"
proof -
  have h: "message_weights new_WeightService = Map.empty"
    by (simp add: new_WeightService_def)
  have d: "drop (length (map numbered_call [0..<150]) - 100)
             (map record_of (map numbered_call [0..<150])) =
           map (\<lambda>i. record_of (numbered_call i)) [50..<150]"
    by (simp add: drop_map comp_def)
  show ?thesis
    using h d
      C5_bounded_history [OF h, where u = "[117]" and cs = "map numbered_call [0..<150]"
        and calls = "[(ascii_lib, (\<lambda>p. (False, [])), 7, [117], [49], str_of ''hi'', [])]"]
    by simp
qed

text \<open>
  C10. Under a filter mode that is none of \<open>disabled\<close>, \<open>selective\<close> and \<open>balanced\<close>,
  \<open>get_filtered_messages\<close> filters nothing by score: the message ids it returns are
  those of the whole history of the user, sorted by falling timestamp and cut by
  \<open>[:limit]\<close>.
\<close>

theorem C10_unknown_mode:
  assumes "filter_mode svc \<noteq> str_of ''disabled''"
    and "filter_mode svc \<noteq> str_of ''selective''"
    and "filter_mode svc \<noteq> str_of ''balanced''"
  shows "snd (get_filtered_messages lib svc u limit) =
           map wr_message_id (slice_to limit (sort_by_timestamp_reverse (user_messages svc u)))"
  using assms by (simp add: get_filtered_messages_def Let_def)

theorem C10_unknown_mode_witness:
  "filter_mode unfiltered_service \<noteq> str_of ''disabled'' \<and>
   filter_mode unfiltered_service \<noteq> str_of ''selective'' \<and>
   filter_mode unfiltered_service \<noteq> str_of ''balanced'' \<and>
   snd (get_filtered_messages ascii_lib unfiltered_service [117] 10) = [[50], [49]]"
proof -
  have m: "filter_mode unfiltered_service \<noteq> str_of ''disabled''"
    "filter_mode unfiltered_service \<noteq> str_of ''selective''"
    "filter_mode unfiltered_service \<noteq> str_of ''balanced''"
    by (simp_all add: unfiltered_service_def str_of_def)
  have s: "map wr_message_id
             (slice_to 10 (sort_by_timestamp_reverse (user_messages unfiltered_service [117])))
           = [[50], [49]]"
    by (simp add: unfiltered_service_def user_messages_def sort_by_timestamp_reverse_def
        slice_to_def)
  show ?thesis
    using m s C10_unknown_mode [OF m, where lib = ascii_lib and u = "[117]" and limit = 10]
    by simp
qed

section \<open>Properties of the impression service\<close>

lemmas rx_eval = kv_pattern_def literal_def str_of_def lit_ci_def sre_lower_def isspace_def
  group1_def strip_def sentinel_def

lemma strip_values:
  "strip [24320, 26391] = [24320, 26391]"
  "strip sentinel = sentinel"
  "sentinel \<noteq> []"
  "[24320, 26391] \<noteq> sentinel"
  by (simp_all add: strip_def sentinel_def isspace_def)

lemma strip_example: "strip example_response = example_response"
  by (simp add: example_response_def rx_eval)

lemma example_search:
  "re_search (kv_pattern ''personality_traits'') example_response = Some [24320, 26391]"
  "re_search (kv_pattern ''interests_hobbies'') example_response = Some sentinel"
  "re_search (kv_pattern ''communication_style'') example_response = None"
  "re_search (kv_pattern ''emotional_tendencies'') example_response = None"
  "re_search (kv_pattern ''behavioral_patterns'') example_response = None"
  "re_search (kv_pattern ''values_attitudes'') example_response = None"
  "re_search (kv_pattern ''relationship_preferences'') example_response = None"
  "re_search (kv_pattern ''growth_development'') example_response = None"
  by (simp_all add: example_response_def rx_eval)

lemma extract_example:
  "extract_dimensions dimension_keys example_response = [(''personality_traits'', [24320, 26391])]"
  by (simp add: dimension_keys_def example_search strip_values)

lemma parse_example:
  "parse_impression_response example_response = [(''personality_traits'', [24320, 26391])]"
  by (simp add: parse_impression_response_def strip_example extract_example)

lemma extract_dimensions_drops:
  "re_search (kv_pattern key) content = Some g \<Longrightarrow> strip g = sentinel \<Longrightarrow>
   map_of (extract_dimensions keys content) key = None"
  by (induction keys) (auto simp: Let_def split: option.splits)

lemma strip_fallback: "strip sentinel_fallback_response = sentinel_fallback_response"
  by (simp add: sentinel_fallback_response_def rx_eval)

lemma fallback_search:
  "re_search (kv_pattern ''personality_traits'') sentinel_fallback_response = None"
  "re_search (kv_pattern ''interests_hobbies'') sentinel_fallback_response = Some sentinel"
  "re_search (kv_pattern ''communication_style'') sentinel_fallback_response = None"
  "re_search (kv_pattern ''emotional_tendencies'') sentinel_fallback_response = None"
  "re_search (kv_pattern ''behavioral_patterns'') sentinel_fallback_response = None"
  "re_search (kv_pattern ''values_attitudes'') sentinel_fallback_response = None"
  "re_search (kv_pattern ''relationship_preferences'') sentinel_fallback_response = None"
  "re_search (kv_pattern ''growth_development'') sentinel_fallback_response = None"
  "re_search (kv_pattern ''IMPRESSION'') sentinel_fallback_response = Some sentinel"
  by (simp_all add: sentinel_fallback_response_def rx_eval)

text \<open>
  C7, as stated, fails in its general part. In the response
  \<open>interests_hobbies: S;IMPRESSION: S\<close>, with \<open>S\<close> the sentinel, the value extracted
  for \<open>interests_hobbies\<close> is the sentinel, no dimension is stored by the key-value
  patterns, and the \<open>IMPRESSION\<close> pattern then stores the sentinel under
  \<open>interests_hobbies\<close>.
\<close>

theorem C7_fallback_counterexample:
  "re_search (kv_pattern ''interests_hobbies'') (strip sentinel_fallback_response) = Some sentinel \<and>
   strip sentinel = sentinel \<and>
   parse_impression_response sentinel_fallback_response = [(''interests_hobbies'', sentinel)] \<and>
   map_of (parse_impression_response sentinel_fallback_response) ''interests_hobbies''
     = Some sentinel"
  by (simp add: parse_impression_response_def strip_fallback dimension_keys_def fallback_search
      strip_values)

text \<open>
  C7, amended. On the response \<open>personality_traits: V;interests_hobbies: S\<close> (\<open>V\<close> is
  U+5F00 U+6717, \<open>S\<close> the sentinel) the parser returns exactly the mapping of
  \<open>personality_traits\<close> to \<open>V\<close>. In general, a dimension whose extracted value,
  stripped, is the sentinel is not stored by the key-value patterns, and it is absent
  from the result of the parser whenever those patterns stored some dimension, or the
  text has no match of the \<open>IMPRESSION\<close> pattern, or the dimension is not
  \<open>interests_hobbies\<close>.
\<close>

theorem C7_sentinel_dropped:
  "parse_impression_response example_response = [(''personality_traits'', [24320, 26391])] \<and>
   (re_search (kv_pattern key) (strip content) = Some g \<and> strip g = sentinel \<longrightarrow>
      map_of (extract_dimensions dimension_keys (strip content)) key = None \<and>
      (extract_dimensions dimension_keys (strip content) \<noteq> [] \<or>
       re_search (kv_pattern ''IMPRESSION'') (strip content) = None \<or>
       key \<noteq> ''interests_hobbies'' \<longrightarrow>
       map_of (parse_impression_response content) key = None))"
  using parse_example extract_dimensions_drops [of key "strip content" g dimension_keys]
  by (auto simp: parse_impression_response_def Let_def split: option.splits)

theorem C7_sentinel_dropped_witness:
  "re_search (kv_pattern ''interests_hobbies'') (strip example_response) = Some sentinel \<and>
   strip sentinel = sentinel \<and>
   extract_dimensions dimension_keys (strip example_response) \<noteq> [] \<and>
   map_of (parse_impression_response example_response) ''interests_hobbies'' = None"
proof -
  have a: "re_search (kv_pattern ''interests_hobbies'') (strip example_response) = Some sentinel"
    by (simp add: strip_example example_search)
  have b: "strip sentinel = sentinel"
    by (simp add: strip_values)
  have c: "extract_dimensions dimension_keys (strip example_response) \<noteq> []"
    by (simp add: strip_example extract_example)
  show ?thesis
    using a b c
      C7_sentinel_dropped [where key = "''interests_hobbies''" and content = example_response
        and g = sentinel]
    by blast
qed

lemma strip_traits: "strip traits_only_response = traits_only_response"
  by (simp add: traits_only_response_def rx_eval)

lemma traits_search:
  "re_search (kv_pattern ''personality_traits'') traits_only_response = Some [24320, 26391]"
  "re_search (kv_pattern ''interests_hobbies'') traits_only_response = None"
  "re_search (kv_pattern ''communication_style'') traits_only_response = None"
  "re_search (kv_pattern ''emotional_tendencies'') traits_only_response = None"
  "re_search (kv_pattern ''behavioral_patterns'') traits_only_response = None"
  "re_search (kv_pattern ''values_attitudes'') traits_only_response = None"
  "re_search (kv_pattern ''relationship_preferences'') traits_only_response = None"
  "re_search (kv_pattern ''growth_development'') traits_only_response = None"
  by (simp_all add: traits_only_response_def rx_eval)

lemma parse_traits:
  "parse_impression_response traits_only_response = [(''personality_traits'', [24320, 26391])]"
  by (simp add: parse_impression_response_def strip_traits dimension_keys_def traits_search
      strip_values)

lemma build_prompt_default:
  "build_prompt lib \<lparr>impression_template = []\<rparr> hist msg =
     Inr (default_impression_prompt_head @
          (if length hist > 300 then take 300 hist else hist) @
          default_impression_prompt_mid @
          (if length msg > 200 then take 200 msg else msg))"
  by (simp add: build_prompt_def strip_def Let_def)

lemma build_traits_only:
  "build_impression ascii_lib (\<lambda>p. (True, traits_only_response)) 9
     \<lparr>impression_template = []\<rparr> chess_table [117] (str_of ''hello'') [] =
   (save_impression chess_table 9 [117] [(''personality_traits'', [24320, 26391])],
    True, impression_built_text)"
  by (simp add: build_impression_def build_prompt_default parse_traits dict_get_def)

text \<open>
  C1, as stated, fails. User \<open>u\<close> has \<open>chess\<close> under \<open>interests_hobbies\<close>; the
  classifier answers with \<open>personality_traits\<close> alone, so \<open>interests_hobbies\<close> is absent
  from the parsed mapping; \<open>build_impression\<close> returns success, and the user's
  \<open>interests_hobbies\<close> is empty afterwards.
\<close>

theorem C1_absent_dimension_counterexample:
  "map_of (parse_impression_response traits_only_response) ''interests_hobbies'' = None \<and>
   fst (snd (build_impression ascii_lib (\<lambda>p. (True, traits_only_response)) 9
               \<lparr>impression_template = []\<rparr> chess_table [117] (str_of ''hello'') [])) = True \<and>
   map_option interests_hobbies (chess_table [117]) = Some (str_of ''chess'') \<and>
   map_option interests_hobbies
     (fst (build_impression ascii_lib (\<lambda>p. (True, traits_only_response)) 9
             \<lparr>impression_template = []\<rparr> chess_table [117] (str_of ''hello'') []) [117])
     = Some []"
proof -
  have a: "map_of (parse_impression_response traits_only_response) ''interests_hobbies'' = None"
    by (simp add: parse_traits)
  have b: "map_option interests_hobbies (chess_table [117]) = Some (str_of ''chess'')"
    by (simp add: chess_table_def)
  have c: "map_option interests_hobbies
             (save_impression chess_table 9 [117] [(''personality_traits'', [24320, 26391])] [117])
           = Some []"
    by (simp add: save_impression_def ui_get_or_create_def chess_table_def dict_get_def
        update_timestamps_def)
  show ?thesis
    using a b c by (simp add: build_traits_only)
qed

text \<open>
  C1, amended. After every successful \<open>build_impression\<close> the user's row holds, in
  each of the eight dimensions, \<open>impression_data.get(dimension, "")\<close> of the parsed
  mapping: the parsed value for a dimension that is present in the mapping, the empty
  string for a dimension that is absent from it.
\<close>

theorem C1_merge_replaces_dimensions:
  assumes "build_impression lib generate now self tbl u msg hist = (tbl', True, summary)"
  shows "\<exists>prompt content row.
           build_prompt lib self hist msg = Inr prompt \<and>
           generate prompt = (True, content) \<and>
           parse_impression_response content \<noteq> [] \<and>
           tbl' u = Some row \<and>
           personality_traits row =
             dict_get (parse_impression_response content) ''personality_traits'' [] \<and>
           interests_hobbies row =
             dict_get (parse_impression_response content) ''interests_hobbies'' [] \<and>
           communication_style row =
             dict_get (parse_impression_response content) ''communication_style'' [] \<and>
           emotional_tendencies row =
             dict_get (parse_impression_response content) ''emotional_tendencies'' [] \<and>
           behavioral_patterns row =
             dict_get (parse_impression_response content) ''behavioral_patterns'' [] \<and>
           values_attitudes row =
             dict_get (parse_impression_response content) ''values_attitudes'' [] \<and>
           relationship_preferences row =
             dict_get (parse_impression_response content) ''relationship_preferences'' [] \<and>
           growth_development row =
             dict_get (parse_impression_response content) ''growth_development'' []"
  using assms
  by (auto simp: build_impression_def save_impression_def ui_get_or_create_def Let_def
        update_timestamps_def
      split: sum.splits prod.splits if_splits option.splits)

theorem C1_merge_replaces_dimensions_witness:
  "build_impression ascii_lib (\<lambda>p. (True, traits_only_response)) 9
     \<lparr>impression_template = []\<rparr> chess_table [117] (str_of ''hello'') [] =
   (save_impression chess_table 9 [117] [(''personality_traits'', [24320, 26391])],
    True, impression_built_text) \<and>
   map_option personality_traits
     (save_impression chess_table 9 [117] [(''personality_traits'', [24320, 26391])] [117])
     = Some [24320, 26391] \<and>
   map_option interests_hobbies
     (save_impression chess_table 9 [117] [(''personality_traits'', [24320, 26391])] [117])
     = Some [] \<and>
   map_option growth_development
     (save_impression chess_table 9 [117] [(''personality_traits'', [24320, 26391])] [117])
     = Some []"
proof -
  from C1_merge_replaces_dimensions [OF build_traits_only]
  obtain content row where
    g: "(True, traits_only_response) = (True, content)" and
    row: "save_impression chess_table 9 [117] [(''personality_traits'', [24320, 26391])] [117]
            = Some row" and
    p: "personality_traits row =
          dict_get (parse_impression_response content) ''personality_traits'' []" and
    i: "interests_hobbies row =
          dict_get (parse_impression_response content) ''interests_hobbies'' []" and
    d: "growth_development row =
          dict_get (parse_impression_response content) ''growth_development'' []"
    by blast
  from g have content: "content = traits_only_response" by simp
  show ?thesis
    using build_traits_only row p i d
    by (simp add: content parse_traits dict_get_def)
qed

end
